theory Spec2Isabelle
  imports Main
begin

section \<open>Python values and the library operations the notifier uses\<close>

text \<open>
  The Lambda event is decoded JSON: \<open>None\<close>, booleans, integers, strings, lists and
  dictionaries with string keys. A Python string is modelled as a \<open>string\<close> whose
  characters are its code points (code points below 256); floats are not modelled.
  A dictionary is an association list in insertion order, looked up with \<open>map_of\<close>.
\<close>

datatype pyval =
    PNone
  | PBool bool
  | PInt int
  | PStr string
  | PList "pyval list"
  | PDict "(string \<times> pyval) list"

text \<open>
  The exceptions the code can meet. \<open>Raised\<close> is an exception (a subclass of
  \<open>Exception\<close>) thrown by the SNS client or by the HTTP client, with its description.
\<close>

datatype py_error =
    KeyError string
  | TypeError
  | AttributeError
  | IndexError
  | Raised string

text \<open>Sequencing of fallible steps: the first exception ends the evaluation.\<close>

definition and_then :: "py_error + 'a \<Rightarrow> ('a \<Rightarrow> py_error + 'b) \<Rightarrow> py_error + 'b" where
  "and_then r f = (case r of Inl e \<Rightarrow> Inl e | Inr v \<Rightarrow> f v)"

text \<open>\<open>v.get(k)\<close>: only a dictionary has the method; a missing key gives \<open>None\<close>.\<close>

fun py_get :: "pyval \<Rightarrow> string \<Rightarrow> py_error + pyval" where
  "py_get (PDict kvs) k = Inr (case map_of kvs k of None \<Rightarrow> PNone | Some v \<Rightarrow> v)"
| "py_get _ k = Inl AttributeError"

text \<open>
  \<open>v[k]\<close> with a string key: \<open>KeyError\<close> on a dictionary without the key,
  \<open>TypeError\<close> on every other value (strings and lists want integer indices, the
  rest is not subscriptable).
\<close>

fun py_getitem :: "pyval \<Rightarrow> string \<Rightarrow> py_error + pyval" where
  "py_getitem (PDict kvs) k = (case map_of kvs k of None \<Rightarrow> Inl (KeyError k) | Some v \<Rightarrow> Inr v)"
| "py_getitem _ k = Inl TypeError"

text \<open>\<open>s.split(c)\<close> for a one-character separator: never an empty list.\<close>

fun split_on :: "char \<Rightarrow> string \<Rightarrow> string list" where
  "split_on c [] = [[]]"
| "split_on c (x # xs) =
     (if x = c then [] # split_on c xs
      else (case split_on c xs of [] \<Rightarrow> [[x]] | w # ws \<Rightarrow> (x # w) # ws))"

fun py_split :: "pyval \<Rightarrow> char \<Rightarrow> py_error + string list" where
  "py_split (PStr s) c = Inr (split_on c s)"
| "py_split _ c = Inl AttributeError"

text \<open>\<open>xs[1]\<close> on a list.\<close>

fun py_index1 :: "'a list \<Rightarrow> py_error + 'a" where
  "py_index1 (x # y # ys) = Inr y"
| "py_index1 _ = Inl IndexError"

text \<open>\<open>sep.join(xs)\<close>.\<close>

fun join :: "string \<Rightarrow> string list \<Rightarrow> string" where
  "join sep [] = []"
| "join sep [x] = x"
| "join sep (x # y # ys) = x @ sep @ join sep (y # ys)"

text \<open>Decimal and hexadecimal digits.\<close>

fun dec_nat :: "nat \<Rightarrow> string" where
  "dec_nat n = (if n < 10 then [''0123456789'' ! n] else dec_nat (n div 10) @ [''0123456789'' ! (n mod 10)])"

definition dec_int :: "int \<Rightarrow> string" where
  "dec_int i = (if i < 0 then CHR ''-'' # dec_nat (nat (- i)) else dec_nat (nat i))"

definition hex2 :: "char \<Rightarrow> string" where
  "hex2 c = [''0123456789abcdef'' ! (of_char c div 16), ''0123456789abcdef'' ! (of_char c mod 16)]"

text \<open>
  \<open>repr\<close> of a string: single quotes unless the string has a single quote and no
  double quote; the quote and the backslash are escaped, tab, newline and carriage
  return are written as escapes, and every other non-printable character as
  \<open>\xhh\<close>.
\<close>

definition printable :: "char \<Rightarrow> bool" where
  "printable c = (let n = (of_char c :: nat) in
     32 \<le> n \<and> n < 127 \<or> 161 \<le> n \<and> n \<noteq> 173)"

definition repr_char :: "char \<Rightarrow> char \<Rightarrow> string" where
  "repr_char q c =
     (if c = q \<or> c = CHR 0x5C then [CHR 0x5C, c]
      else if c = CHR 0x09 then [CHR 0x5C, CHR ''t'']
      else if c = CHR 0x0A then [CHR 0x5C, CHR ''n'']
      else if c = CHR 0x0D then [CHR 0x5C, CHR ''r'']
      else if printable c then [c]
      else CHR 0x5C # CHR ''x'' # hex2 c)"

definition repr_str :: "string \<Rightarrow> string" where
  "repr_str s =
     (let q = (if CHR 0x27 \<in> set s \<and> CHR 0x22 \<notin> set s then CHR 0x22 else CHR 0x27)
      in q # concat (map (repr_char q) s) @ [q])"

primrec py_repr :: "pyval \<Rightarrow> string" where
  "py_repr PNone = ''None''"
| "py_repr (PBool b) = (if b then ''True'' else ''False'')"
| "py_repr (PInt i) = dec_int i"
| "py_repr (PStr s) = repr_str s"
| "py_repr (PList xs) = ''['' @ join '', '' (map py_repr xs) @ '']''"
| "py_repr (PDict kvs) =
     ''{'' @ join '', '' (map (\<lambda>kv. repr_str (fst kv) @ '': '' @ snd kv) (map (map_prod id py_repr) kvs)) @ ''}''"

text \<open>\<open>str(v)\<close>, which an f-string applies to each value: a string is itself.\<close>

fun py_str :: "pyval \<Rightarrow> string" where
  "py_str (PStr s) = s"
| "py_str v = py_repr v"

text \<open>
  \<open>json.dumps\<close> with its defaults: separators \<open>", "\<close> and \<open>": "\<close>, and
  \<open>ensure_ascii\<close>, so that every character outside the printable ASCII range is
  written as an escape.
\<close>

definition json_char :: "char \<Rightarrow> string" where
  "json_char c =
     (if c = CHR 0x22 then [CHR 0x5C, CHR 0x22]
      else if c = CHR 0x5C then [CHR 0x5C, CHR 0x5C]
      else if c = CHR 0x0A then [CHR 0x5C, CHR ''n'']
      else if c = CHR 0x0D then [CHR 0x5C, CHR ''r'']
      else if c = CHR 0x09 then [CHR 0x5C, CHR ''t'']
      else if c = CHR 0x08 then [CHR 0x5C, CHR ''b'']
      else if c = CHR 0x0C then [CHR 0x5C, CHR ''f'']
      else if 32 \<le> (of_char c :: nat) \<and> (of_char c :: nat) < 127 then [c]
      else CHR 0x5C # CHR ''u'' # CHR ''0'' # CHR ''0'' # hex2 c)"

definition json_str :: "string \<Rightarrow> string" where
  "json_str s = CHR 0x22 # concat (map json_char s) @ [CHR 0x22]"

primrec json_dumps :: "pyval \<Rightarrow> string" where
  "json_dumps PNone = ''null''"
| "json_dumps (PBool b) = (if b then ''true'' else ''false'')"
| "json_dumps (PInt i) = dec_int i"
| "json_dumps (PStr s) = json_str s"
| "json_dumps (PList xs) = ''['' @ join '', '' (map json_dumps xs) @ '']''"
| "json_dumps (PDict kvs) =
     ''{'' @ join '', '' (map (\<lambda>kv. json_str (fst kv) @ '': '' @ snd kv) (map (map_prod id json_dumps) kvs)) @ ''}''"

section \<open>Configuration, environment and observable effects\<close>

text \<open>
  The module reads its three settings once, at import. \<open>SLACK_ENDPOINT\<close> and
  \<open>SNS_TOPIC_ARN\<close> are \<open>None\<close> when the variable is unset. \<open>sns_publish\<close> and
  \<open>http_request\<close> stand for the two external calls, \<open>sns_client.publish\<close> and
  \<open>urllib3.PoolManager().request\<close>: \<open>Inl e\<close> is an exception raised by the call (with
  its description \<open>e\<close>), \<open>Inr\<close> is a normal return, for the request with the text of
  the response object. \<open>SLACK_NOTIFICATION\<close> is the truth value of what
  \<open>strtobool\<close> gave for the variable (\<open>false\<close> when unset).
\<close>

record env =
  SLACK_ENDPOINT :: "string option"
  SLACK_NOTIFICATION :: bool
  SNS_TOPIC_ARN :: "string option"
  sns_publish :: "string option \<Rightarrow> string \<Rightarrow> string \<Rightarrow> string + unit"
  http_request :: "string option \<Rightarrow> (string \<times> string) list \<Rightarrow> string \<Rightarrow> string + string"

text \<open>
  What an invocation does to the outside, in order: \<open>Publish topic subject message\<close>
  and \<open>Post url headers body\<close> record that the external call was made (whatever its
  outcome); the other three are calls of the logger. \<open>LogException msg err\<close> is
  \<open>logger.exception\<close> with the text \<open>msg\<close> followed by the caught exception \<open>err\<close>.
\<close>

datatype effect =
    Publish "string option" string string
  | Post "string option" "(string \<times> string) list" string
  | LogInfo string
  | LogDebug string
  | LogException string py_error

text \<open>
  A computation yields the effects it made and either the exception that ended it or
  its value.
\<close>

type_synonym 'a action = "effect list \<times> (py_error + 'a)"

definition lift :: "py_error + 'a \<Rightarrow> 'a action" where
  "lift r = ([], r)"

definition emit :: "effect \<Rightarrow> unit action" where
  "emit e = ([e], Inr ())"

definition seq :: "'a action \<Rightarrow> ('a \<Rightarrow> 'b action) \<Rightarrow> 'b action" where
  "seq a f =
     (case a of
        (tr, Inl e) \<Rightarrow> (tr, Inl e)
      | (tr, Inr v) \<Rightarrow> (case f v of (tr', r) \<Rightarrow> (tr @ tr', r)))"

text \<open>
  \<open>try: a  except Exception as error: logger.exception(msg + str(error))\<close>:
  every exception of the model is an \<open>Exception\<close>.
\<close>

definition except_Exception :: "string \<Rightarrow> unit action \<Rightarrow> unit action" where
  "except_Exception msg a =
     (case a of
        (tr, Inl err) \<Rightarrow> (tr @ [LogException msg err], Inr ())
      | (tr, Inr u) \<Rightarrow> (tr, Inr u))"

section \<open>The notifier\<close>

text \<open>
  The three functions of the module, statement by statement. The decorators (tracing,
  and the logging of the incoming event) change neither what a function returns nor
  what it raises, and are left out.
\<close>

subsection \<open>The four values read from the CloudTrail detail\<close>

definition get_eventName :: "pyval \<Rightarrow> py_error + pyval" where
  "get_eventName message_detail = py_get message_detail ''eventName''"

definition get_accountId :: "pyval \<Rightarrow> py_error + pyval" where
  "get_accountId message_detail =
     and_then (py_get message_detail ''requestParameters'') (\<lambda>rp. py_get rp ''accountId'')"

definition get_principal :: "pyval \<Rightarrow> py_error + string" where
  "get_principal message_detail =
     and_then (py_get message_detail ''userIdentity'') (\<lambda>ui.
     and_then (py_get ui ''principalId'') (\<lambda>pid.
     and_then (py_split pid CHR '':'') py_index1))"

definition get_eventTime :: "pyval \<Rightarrow> py_error + pyval" where
  "get_eventTime message_detail = py_get message_detail ''eventTime''"

subsection \<open>\<open>send_sns_notification\<close>\<close>

text \<open>
  The keyword arguments of \<open>sns_client.publish\<close>, evaluated left to right before the
  call: \<open>Subject\<close>, then the six interpolations of \<open>Message\<close>.
\<close>

definition sns_arguments :: "pyval \<Rightarrow> py_error + (string \<times> string)" where
  "sns_arguments message_detail =
     and_then (get_eventName message_detail) (\<lambda>n0.
     and_then (get_eventName message_detail) (\<lambda>n1.
     and_then (get_accountId message_detail) (\<lambda>a1.
     and_then (get_eventName message_detail) (\<lambda>n2.
     and_then (get_accountId message_detail) (\<lambda>a2.
     and_then (get_principal message_detail) (\<lambda>p.
     and_then (get_eventTime message_detail) (\<lambda>t.
       Inr (''AWS '' @ py_str n0 @ '' Notification'',
            py_str n1 @ '' action has been made for Account'' @
            '' '' @ py_str a1 @ ''\<newline>\<newline>'' @
            ''Action: '' @ py_str n2 @ '' \<newline>'' @
            ''   Target Account: '' @ py_str a2 @ ''\<newline>'' @
            ''   Calling Principal: '' @ p @ '' \<newline>'' @
            ''   TimeStamp: '' @ py_str t))))))))"

definition sns_success_text :: "pyval \<Rightarrow> py_error + string" where
  "sns_success_text message_detail =
     and_then (get_eventName message_detail) (\<lambda>n.
     and_then (get_accountId message_detail) (\<lambda>a.
       Inr (''Successfully sent SNS notification for '' @ py_str n @
            '' event of account '' @ py_str a)))"

definition call_publish :: "env \<Rightarrow> string \<Rightarrow> string \<Rightarrow> unit action" where
  "call_publish cfg subject message =
     ([Publish (SNS_TOPIC_ARN cfg) subject message],
      (case sns_publish cfg (SNS_TOPIC_ARN cfg) subject message of
         Inl e \<Rightarrow> Inl (Raised e)
       | Inr u \<Rightarrow> Inr u))"

definition sns_try :: "env \<Rightarrow> pyval \<Rightarrow> unit action" where
  "sns_try cfg message_detail =
     seq (lift (sns_arguments message_detail)) (\<lambda>(subject, message).
     seq (call_publish cfg subject message) (\<lambda>_.
     seq (lift (sns_success_text message_detail)) (\<lambda>line.
       emit (LogInfo line))))"

definition send_sns_notification :: "env \<Rightarrow> pyval \<Rightarrow> unit action" where
  "send_sns_notification cfg message_detail =
     except_Exception ''Failed to send SNS notification: '' (sns_try cfg message_detail)"

subsection \<open>\<open>send_slack_notification\<close>\<close>

text \<open>
  The dictionary handed to \<open>json.dumps\<close>; its five interpolations are evaluated in
  the order of the display, outside any \<open>try\<close>.
\<close>

definition mrkdwn :: "string \<Rightarrow> pyval" where
  "mrkdwn line = PDict [(''type'', PStr ''mrkdwn''), (''text'', PStr line)]"

definition slack_blocks :: "pyval \<Rightarrow> py_error + pyval" where
  "slack_blocks message_detail =
     and_then (get_eventName message_detail) (\<lambda>n0.
     and_then (get_eventName message_detail) (\<lambda>n1.
     and_then (get_accountId message_detail) (\<lambda>a.
     and_then (get_principal message_detail) (\<lambda>p.
     and_then (get_eventTime message_detail) (\<lambda>t.
       Inr (PDict [(''blocks'', PList
         [PDict [(''type'', PStr ''header''),
                 (''text'', PDict [(''type'', PStr ''plain_text''),
                                   (''text'', PStr (''AWS '' @ py_str n0 @ '' Notification''))])],
          PDict [(''type'', PStr ''section''),
                 (''fields'', PList
                   [mrkdwn (''*Action:*\<newline>'' @ py_str n1),
                    mrkdwn (''*Target Account:*\<newline>'' @ py_str a),
                    mrkdwn (''*Calling Principal:*\<newline>'' @ p),
                    mrkdwn (''*TimeStamp:*\<newline>'' @ py_str t)])]])]))))))"

definition call_request :: "env \<Rightarrow> string \<Rightarrow> string action" where
  "call_request cfg message_body =
     ([Post (SLACK_ENDPOINT cfg) [(''Content-Type'', ''application/json'')] message_body],
      (case http_request cfg (SLACK_ENDPOINT cfg) [(''Content-Type'', ''application/json'')] message_body of
         Inl e \<Rightarrow> Inl (Raised e)
       | Inr response \<Rightarrow> Inr response))"

definition slack_try :: "env \<Rightarrow> string \<Rightarrow> unit action" where
  "slack_try cfg message_body =
     seq (call_request cfg message_body) (\<lambda>response.
       emit (LogDebug (''Response: '' @ response)))"

definition send_slack_notification :: "env \<Rightarrow> pyval \<Rightarrow> unit action" where
  "send_slack_notification cfg message_detail =
     seq (lift (slack_blocks message_detail)) (\<lambda>blocks.
       except_Exception ''Failed to send SLACK notification: ''
         (slack_try cfg (json_dumps blocks)))"

subsection \<open>\<open>lambda_handler\<close>\<close>

definition received_text :: "pyval \<Rightarrow> py_error + string" where
  "received_text message_detail =
     and_then (py_getitem message_detail ''eventName'') (\<lambda>n.
     and_then (py_getitem message_detail ''requestParameters'') (\<lambda>rp.
     and_then (py_getitem rp ''accountId'') (\<lambda>a.
       Inr (''Received CloudWatch event of '' @ py_str n @
            '' API for Account ID '' @ py_str a))))"

definition sending_text :: "string \<Rightarrow> pyval \<Rightarrow> py_error + string" where
  "sending_text channel message_detail =
     and_then (py_getitem message_detail ''eventName'') (\<lambda>n.
       Inr (''Sending '' @ channel @ '' Notification for received event '' @ py_str n))"

definition lambda_handler :: "env \<Rightarrow> pyval \<Rightarrow> unit action" where
  "lambda_handler cfg event =
     seq (lift (py_getitem event ''detail'')) (\<lambda>message_detail.
     seq (lift (py_getitem message_detail ''eventName'')) (\<lambda>n.
       if n \<in> set [PStr ''CloseAccount'', PStr ''RemoveAccountFromOrganization''] then
         seq (lift (received_text message_detail)) (\<lambda>line.
         seq (emit (LogInfo line)) (\<lambda>_.
         seq (lift (sending_text ''SNS'' message_detail)) (\<lambda>line.
         seq (emit (LogInfo line)) (\<lambda>_.
         seq (send_sns_notification cfg message_detail) (\<lambda>_.
           if SLACK_NOTIFICATION cfg then
             seq (lift (sending_text ''SLACK'' message_detail)) (\<lambda>line.
             seq (emit (LogInfo line)) (\<lambda>_.
               send_slack_notification cfg message_detail))
           else lift (Inr ()))))))
       else
         emit (LogInfo ''Event received is not associated with CloseAccount/RemoveAccountFromOrganization API call'')))"

text \<open>\<open>event['detail']['eventName']\<close>, the value the handler tests.\<close>

definition event_name :: "pyval \<Rightarrow> py_error + pyval" where
  "event_name event = and_then (py_getitem event ''detail'') (\<lambda>message_detail. py_getitem message_detail ''eventName'')"

subsection \<open>Reading a trace\<close>

fun is_publish :: "effect \<Rightarrow> bool" where
  "is_publish (Publish topic subject message) = True"
| "is_publish _ = False"

fun is_post :: "effect \<Rightarrow> bool" where
  "is_post (Post url headers body) = True"
| "is_post _ = False"

definition dispatched :: "effect list \<Rightarrow> bool" where
  "dispatched tr = list_ex (\<lambda>e. is_publish e \<or> is_post e) tr"

text \<open>The subject and message of every \<open>publish\<close> call, and the body of every POST.\<close>

fun published :: "effect list \<Rightarrow> (string \<times> string) list" where
  "published [] = []"
| "published (Publish topic subject message # tr) = (subject, message) # published tr"
| "published (e # tr) = published tr"

fun posted :: "effect list \<Rightarrow> string list" where
  "posted [] = []"
| "posted (Post url headers body # tr) = body # posted tr"
| "posted (e # tr) = posted tr"

definition effects :: "'a action \<Rightarrow> effect list" where
  "effects a = fst a"

definition outcome :: "'a action \<Rightarrow> py_error + 'a" where
  "outcome a = snd a"

subsection \<open>Sample inputs\<close>

text \<open>
  The event of the specification's end-to-end scenario, with the action and the
  principal identifier left open, and three environments: both channels up with chat
  enabled, chat disabled, and both external calls raising.
\<close>

definition closure_detail :: "string \<Rightarrow> string \<Rightarrow> pyval" where
  "closure_detail n pid =
     PDict [(''eventName'', PStr n),
            (''eventTime'', PStr ''2024-01-01T00:00:00Z''),
            (''requestParameters'', PDict [(''accountId'', PStr ''123456789012'')]),
            (''userIdentity'', PDict [(''principalId'', PStr pid)])]"

definition closure_event :: "string \<Rightarrow> string \<Rightarrow> pyval" where
  "closure_event n pid = PDict [(''detail'', closure_detail n pid)]"

definition event_without_account :: pyval where
  "event_without_account = PDict [(''detail'', PDict [(''eventName'', PStr ''CloseAccount'')])]"

definition env_up :: env where
  "env_up =
     \<lparr>SLACK_ENDPOINT = Some ''https://hooks.example.com/services/T000'',
      SLACK_NOTIFICATION = True,
      SNS_TOPIC_ARN = Some ''arn:aws:sns:eu-west-1:111122223333:account-closure'',
      sns_publish = (\<lambda>topic subject message. Inr ()),
      http_request = (\<lambda>url headers body. Inr ''200'')\<rparr>"

definition env_quiet :: env where
  "env_quiet = env_up\<lparr>SLACK_NOTIFICATION := False\<rparr>"

definition env_down :: env where
  "env_down =
     env_up\<lparr>sns_publish := (\<lambda>topic subject message. Inl ''EndpointConnectionError''),
             http_request := (\<lambda>url headers body. Inl ''MaxRetryError'')\<rparr>"

text \<open>
  What the scenario's event (\<open>CloseAccount\<close> by \<open>AIDAEXAMPLE:bob\<close>) is expected to
  give: the message of the plain-text notification and the block document.
\<close>

definition scenario_blocks :: pyval where
  "scenario_blocks =
     PDict [(''blocks'', PList
       [PDict [(''type'', PStr ''header''),
               (''text'', PDict [(''type'', PStr ''plain_text''),
                                 (''text'', PStr ''AWS CloseAccount Notification'')])],
        PDict [(''type'', PStr ''section''),
               (''fields'', PList
                 [PDict [(''type'', PStr ''mrkdwn''), (''text'', PStr ''*Action:*\<newline>CloseAccount'')],
                  PDict [(''type'', PStr ''mrkdwn''), (''text'', PStr ''*Target Account:*\<newline>123456789012'')],
                  PDict [(''type'', PStr ''mrkdwn''), (''text'', PStr ''*Calling Principal:*\<newline>bob'')],
                  PDict [(''type'', PStr ''mrkdwn''), (''text'', PStr ''*TimeStamp:*\<newline>2024-01-01T00:00:00Z'')]])]])]"

definition scenario_message :: string where
  "scenario_message =
     ''CloseAccount action has been made for Account 123456789012\<newline>\<newline>Action: CloseAccount \<newline>   Target Account: 123456789012\<newline>   Calling Principal: bob \<newline>   TimeStamp: 2024-01-01T00:00:00Z''"

section \<open>Basic facts\<close>

lemma and_then_Inr [simp]: "and_then (Inr v) f = f v"
  by (simp add: and_then_def)

lemma and_then_Inl [simp]: "and_then (Inl e) f = Inl e"
  by (simp add: and_then_def)

lemma seq_lift_Inr [simp]: "seq (lift (Inr v)) f = f v"
  by (simp add: seq_def lift_def split: prod.splits)

lemma seq_lift_Inl [simp]: "seq (lift (Inl e)) f = ([], Inl e)"
  by (simp add: seq_def lift_def)

lemma seq_emit [simp]: "seq (emit x) f = (x # fst (f ()), snd (f ()))"
  by (simp add: seq_def emit_def split: prod.splits)

lemma seq_Inr: "a = (tr, Inr v) \<Longrightarrow> seq a f = (tr @ fst (f v), snd (f v))"
  by (simp add: seq_def split: prod.splits)

lemma py_getitem_get: "py_getitem v k = Inr x \<Longrightarrow> py_get v k = Inr x"
  by (cases v) (auto split: option.splits)

lemma split_on_nonempty: "split_on c s \<noteq> []"
  by (induction s) (auto split: list.splits)

lemma split_on_no_sep: "c \<notin> set s \<Longrightarrow> split_on c s = [s]"
  by (induction s) auto

lemma split_on_sep: "c \<in> set s \<Longrightarrow> \<exists>a b r. split_on c s = a # b # r"
proof (induction s)
  case Nil
  then show ?case by simp
next
  case (Cons x xs)
  show ?case
  proof (cases "x = c")
    case True
    then show ?thesis using split_on_nonempty [of c xs] by (cases "split_on c xs") auto
  next
    case False
    with Cons show ?thesis by auto
  qed
qed

lemma split_on_takeWhile:
  "split_on c s = takeWhile (\<lambda>x. x \<noteq> c) s #
     (case dropWhile (\<lambda>x. x \<noteq> c) s of [] \<Rightarrow> [] | x # r \<Rightarrow> split_on c r)"
  by (induction s) (auto split: list.splits)

lemma py_index1_split_sep:
  "c \<in> set s \<Longrightarrow> py_index1 (split_on c s) = Inr (split_on c s ! 1)"
  using split_on_sep [of c s] by auto

lemma py_index1_split_no_sep:
  "c \<notin> set s \<Longrightarrow> py_index1 (split_on c s) = Inl IndexError"
  by (simp add: split_on_no_sep)

subsection \<open>The three functions, case by case\<close>

lemma send_sns_format_error:
  "sns_arguments d = Inl err \<Longrightarrow>
   send_sns_notification cfg d = ([LogException ''Failed to send SNS notification: '' err], Inr ())"
  by (simp add: send_sns_notification_def sns_try_def except_Exception_def)

lemma send_sns_publish_raises:
  "sns_arguments d = Inr (s, m) \<Longrightarrow> sns_publish cfg (SNS_TOPIC_ARN cfg) s m = Inl e \<Longrightarrow>
   send_sns_notification cfg d =
     ([Publish (SNS_TOPIC_ARN cfg) s m, LogException ''Failed to send SNS notification: '' (Raised e)], Inr ())"
  by (simp add: send_sns_notification_def sns_try_def except_Exception_def call_publish_def seq_def lift_def)

lemma send_sns_publish_returns:
  "sns_arguments d = Inr (s, m) \<Longrightarrow> sns_publish cfg (SNS_TOPIC_ARN cfg) s m = Inr u \<Longrightarrow>
   sns_success_text d = Inr line \<Longrightarrow>
   send_sns_notification cfg d = ([Publish (SNS_TOPIC_ARN cfg) s m, LogInfo line], Inr ())"
  by (simp add: send_sns_notification_def sns_try_def except_Exception_def call_publish_def seq_def emit_def lift_def)

lemma send_sns_outcome: "outcome (send_sns_notification cfg d) = Inr ()"
  by (simp add: outcome_def send_sns_notification_def except_Exception_def split: prod.splits sum.splits)

lemma send_sns_effects:
  "effects (send_sns_notification cfg d) =
     (case sns_arguments d of
        Inl err \<Rightarrow> [LogException ''Failed to send SNS notification: '' err]
      | Inr (s, m) \<Rightarrow> Publish (SNS_TOPIC_ARN cfg) s m #
          (case sns_publish cfg (SNS_TOPIC_ARN cfg) s m of
             Inl e \<Rightarrow> [LogException ''Failed to send SNS notification: '' (Raised e)]
           | Inr u \<Rightarrow> (case sns_success_text d of
                 Inl err \<Rightarrow> [LogException ''Failed to send SNS notification: '' err]
               | Inr line \<Rightarrow> [LogInfo line])))"
  by (simp add: effects_def send_sns_notification_def sns_try_def except_Exception_def call_publish_def
      seq_def emit_def lift_def split: sum.splits prod.splits)

lemma send_slack_format_error:
  "slack_blocks d = Inl err \<Longrightarrow> send_slack_notification cfg d = ([], Inl err)"
  by (simp add: send_slack_notification_def)

lemma send_slack_formatted:
  "slack_blocks d = Inr b \<Longrightarrow>
   send_slack_notification cfg d =
     (Post (SLACK_ENDPOINT cfg) [(''Content-Type'', ''application/json'')] (json_dumps b) #
        (case http_request cfg (SLACK_ENDPOINT cfg) [(''Content-Type'', ''application/json'')] (json_dumps b) of
           Inl e \<Rightarrow> [LogException ''Failed to send SLACK notification: '' (Raised e)]
         | Inr response \<Rightarrow> [LogDebug (''Response: '' @ response)]),
      Inr ())"
  by (simp add: send_slack_notification_def slack_try_def call_request_def except_Exception_def
      seq_def emit_def lift_def split: sum.splits)

lemma slack_blocks_of_arguments:
  "sns_arguments d = Inr sm \<Longrightarrow> \<exists>b. slack_blocks d = Inr b"
  by (cases "get_eventName d"; cases "get_accountId d"; cases "get_principal d"; cases "get_eventTime d")
     (auto simp: sns_arguments_def slack_blocks_def)

lemma format_errors_agree:
  "sns_arguments d = Inl err \<Longrightarrow> slack_blocks d = Inl err"
  by (cases "get_eventName d"; cases "get_accountId d"; cases "get_principal d"; cases "get_eventTime d")
     (auto simp: sns_arguments_def slack_blocks_def)

lemma lambda_handler_no_detail:
  "py_getitem event ''detail'' = Inl err \<Longrightarrow> lambda_handler cfg event = ([], Inl err)"
  by (simp add: lambda_handler_def)

lemma lambda_handler_no_eventName:
  "py_getitem event ''detail'' = Inr d \<Longrightarrow> py_getitem d ''eventName'' = Inl err \<Longrightarrow>
   lambda_handler cfg event = ([], Inl err)"
  by (simp add: lambda_handler_def)

lemma lambda_handler_other:
  "py_getitem event ''detail'' = Inr d \<Longrightarrow> py_getitem d ''eventName'' = Inr n \<Longrightarrow>
   n \<notin> set [PStr ''CloseAccount'', PStr ''RemoveAccountFromOrganization''] \<Longrightarrow>
   lambda_handler cfg event =
     ([LogInfo ''Event received is not associated with CloseAccount/RemoveAccountFromOrganization API call''], Inr ())"
  by (simp add: lambda_handler_def emit_def)

lemma lambda_handler_no_account:
  "py_getitem event ''detail'' = Inr d \<Longrightarrow> py_getitem d ''eventName'' = Inr n \<Longrightarrow>
   n \<in> set [PStr ''CloseAccount'', PStr ''RemoveAccountFromOrganization''] \<Longrightarrow>
   received_text d = Inl err \<Longrightarrow>
   lambda_handler cfg event = ([], Inl err)"
  by (simp add: lambda_handler_def)

lemma lambda_handler_closure:
  "py_getitem event ''detail'' = Inr d \<Longrightarrow> py_getitem d ''eventName'' = Inr n \<Longrightarrow>
   n \<in> set [PStr ''CloseAccount'', PStr ''RemoveAccountFromOrganization''] \<Longrightarrow>
   received_text d = Inr line \<Longrightarrow>
   lambda_handler cfg event =
     (LogInfo line # LogInfo (''Sending SNS Notification for received event '' @ py_str n) #
        effects (send_sns_notification cfg d) @
        (if SLACK_NOTIFICATION cfg
         then LogInfo (''Sending SLACK Notification for received event '' @ py_str n) #
                effects (send_slack_notification cfg d)
         else []),
      if SLACK_NOTIFICATION cfg then outcome (send_slack_notification cfg d) else Inr ())"
  using send_sns_outcome [of cfg d]
  by (cases "send_sns_notification cfg d")
     (simp add: lambda_handler_def sending_text_def seq_Inr effects_def outcome_def lift_def)

lemma effects_pair [simp]: "effects (tr, r) = tr"
  by (simp add: effects_def)

lemma outcome_pair [simp]: "outcome (tr, r) = r"
  by (simp add: outcome_def)

lemma send_sns_no_post: "\<not> list_ex is_post (effects (send_sns_notification cfg d))"
  by (simp add: send_sns_effects split: sum.splits prod.splits)

lemma published_append [simp]: "published (xs @ ys) = published xs @ published ys"
  by (induction xs rule: published.induct) simp_all

lemma posted_append [simp]: "posted (xs @ ys) = posted xs @ posted ys"
  by (induction xs rule: posted.induct) simp_all

lemma published_send_sns:
  "published (effects (send_sns_notification cfg d)) =
     (case sns_arguments d of Inl err \<Rightarrow> [] | Inr sm \<Rightarrow> [sm])"
  by (simp add: send_sns_effects split: sum.splits prod.splits)

lemma posted_send_sns: "posted (effects (send_sns_notification cfg d)) = []"
  by (simp add: send_sns_effects split: sum.splits prod.splits)

lemma posted_send_slack:
  "posted (effects (send_slack_notification cfg d)) =
     (case slack_blocks d of Inl err \<Rightarrow> [] | Inr b \<Rightarrow> [json_dumps b])"
  by (cases "slack_blocks d") (simp_all add: send_slack_format_error send_slack_formatted split: sum.splits)

lemma published_send_slack: "published (effects (send_slack_notification cfg d)) = []"
  by (cases "slack_blocks d") (simp_all add: send_slack_format_error send_slack_formatted split: sum.splits)

lemma send_slack_no_publish: "\<not> list_ex is_publish (effects (send_slack_notification cfg d))"
  by (cases "slack_blocks d") (simp_all add: send_slack_format_error send_slack_formatted split: sum.splits)

lemma send_sns_publish_iff:
  "list_ex is_publish (effects (send_sns_notification cfg d)) \<longleftrightarrow> (\<exists>sm. sns_arguments d = Inr sm)"
  by (simp add: send_sns_effects split: sum.splits prod.splits)

lemma send_slack_post_iff:
  "list_ex is_post (effects (send_slack_notification cfg d)) \<longleftrightarrow> (\<exists>b. slack_blocks d = Inr b)"
  by (cases "slack_blocks d") (simp_all add: send_slack_format_error send_slack_formatted)

text \<open>The handler, by the four ways it can go.\<close>

lemma lambda_handler_cases [case_names no_detail no_eventName other no_account closure]:
  assumes "\<And>err. py_getitem event ''detail'' = Inl err \<Longrightarrow> lambda_handler cfg event = ([], Inl err) \<Longrightarrow> P"
    and "\<And>d err. py_getitem event ''detail'' = Inr d \<Longrightarrow> py_getitem d ''eventName'' = Inl err \<Longrightarrow>
           lambda_handler cfg event = ([], Inl err) \<Longrightarrow> P"
    and "\<And>d n. py_getitem event ''detail'' = Inr d \<Longrightarrow> py_getitem d ''eventName'' = Inr n \<Longrightarrow>
           n \<notin> set [PStr ''CloseAccount'', PStr ''RemoveAccountFromOrganization''] \<Longrightarrow>
           lambda_handler cfg event =
             ([LogInfo ''Event received is not associated with CloseAccount/RemoveAccountFromOrganization API call''], Inr ()) \<Longrightarrow> P"
    and "\<And>d n err. py_getitem event ''detail'' = Inr d \<Longrightarrow> py_getitem d ''eventName'' = Inr n \<Longrightarrow>
           n \<in> set [PStr ''CloseAccount'', PStr ''RemoveAccountFromOrganization''] \<Longrightarrow>
           received_text d = Inl err \<Longrightarrow> lambda_handler cfg event = ([], Inl err) \<Longrightarrow> P"
    and "\<And>d n msg. py_getitem event ''detail'' = Inr d \<Longrightarrow> py_getitem d ''eventName'' = Inr n \<Longrightarrow>
           n \<in> set [PStr ''CloseAccount'', PStr ''RemoveAccountFromOrganization''] \<Longrightarrow>
           received_text d = Inr msg \<Longrightarrow>
           lambda_handler cfg event =
             (LogInfo msg # LogInfo (''Sending SNS Notification for received event '' @ py_str n) #
                effects (send_sns_notification cfg d) @
                (if SLACK_NOTIFICATION cfg
                 then LogInfo (''Sending SLACK Notification for received event '' @ py_str n) #
                        effects (send_slack_notification cfg d)
                 else []),
              if SLACK_NOTIFICATION cfg then outcome (send_slack_notification cfg d) else Inr ()) \<Longrightarrow> P"
  shows P
proof (cases "py_getitem event ''detail''")
  case (Inl err)
  then show ?thesis
    using assms(1) lambda_handler_no_detail by blast
next
  case (Inr d)
  note detail = this
  show ?thesis
  proof (cases "py_getitem d ''eventName''")
    case (Inl err)
    with detail show ?thesis
      using assms(2) lambda_handler_no_eventName by blast
  next
    case (Inr n)
    note name = this
    show ?thesis
    proof (cases "n \<in> set [PStr ''CloseAccount'', PStr ''RemoveAccountFromOrganization'']")
      case False
      then show ?thesis
        using assms(3) [OF detail name] lambda_handler_other [OF detail name] by blast
    next
      case True
      show ?thesis
      proof (cases "received_text d")
        case (Inl err)
        then show ?thesis
          using assms(4) [OF detail name True] lambda_handler_no_account [OF detail name True] by blast
      next
        case (Inr msg)
        then show ?thesis
          using assms(5) [OF detail name True] lambda_handler_closure [OF detail name True] by blast
      qed
    qed
  qed
qed

lemma published_lambda_handler:
  "published (effects (lambda_handler cfg event)) =
     (case py_getitem event ''detail'' of Inl err \<Rightarrow> []
      | Inr d \<Rightarrow> (case py_getitem d ''eventName'' of Inl err \<Rightarrow> []
        | Inr n \<Rightarrow> if n \<in> set [PStr ''CloseAccount'', PStr ''RemoveAccountFromOrganization'']
            then (case received_text d of Inl err \<Rightarrow> []
                  | Inr msg \<Rightarrow> (case sns_arguments d of Inl err \<Rightarrow> [] | Inr sm \<Rightarrow> [sm]))
            else []))"
  by (cases cfg event rule: lambda_handler_cases)
     (simp_all add: published_send_sns published_send_slack)

lemma posted_lambda_handler:
  "posted (effects (lambda_handler cfg event)) =
     (case py_getitem event ''detail'' of Inl err \<Rightarrow> []
      | Inr d \<Rightarrow> (case py_getitem d ''eventName'' of Inl err \<Rightarrow> []
        | Inr n \<Rightarrow> if n \<in> set [PStr ''CloseAccount'', PStr ''RemoveAccountFromOrganization'']
            then (case received_text d of Inl err \<Rightarrow> []
                  | Inr msg \<Rightarrow> if SLACK_NOTIFICATION cfg
                      then (case slack_blocks d of Inl err \<Rightarrow> [] | Inr b \<Rightarrow> [json_dumps b])
                      else [])
            else []))"
  by (cases cfg event rule: lambda_handler_cases)
     (simp_all add: posted_send_sns posted_send_slack)

subsection \<open>The formatted fields\<close>

lemma get_accountId_of:
  "py_getitem d ''requestParameters'' = Inr rp \<Longrightarrow> py_getitem rp ''accountId'' = Inr a \<Longrightarrow>
   get_accountId d = Inr a"
  by (simp add: get_accountId_def py_getitem_get)

lemma get_principal_second:
  "py_get d ''userIdentity'' = Inr ui \<Longrightarrow> py_get ui ''principalId'' = Inr (PStr pid) \<Longrightarrow>
   CHR '':'' \<in> set pid \<Longrightarrow> get_principal d = Inr (split_on CHR '':'' pid ! 1)"
  by (simp add: get_principal_def py_index1_split_sep)

lemma get_principal_no_colon:
  "py_get d ''userIdentity'' = Inr ui \<Longrightarrow> py_get ui ''principalId'' = Inr (PStr pid) \<Longrightarrow>
   CHR '':'' \<notin> set pid \<Longrightarrow> get_principal d = Inl IndexError"
  by (simp add: get_principal_def py_index1_split_no_sep)

lemma received_text_of:
  "py_getitem d ''eventName'' = Inr n \<Longrightarrow> py_getitem d ''requestParameters'' = Inr rp \<Longrightarrow>
   py_getitem rp ''accountId'' = Inr a \<Longrightarrow>
   received_text d = Inr (''Received CloudWatch event of '' @ py_str n @ '' API for Account ID '' @ py_str a)"
  by (simp add: received_text_def)

lemma sns_arguments_fields:
  "get_eventName d = Inr n \<Longrightarrow> get_accountId d = Inr a \<Longrightarrow> get_principal d = Inr p \<Longrightarrow>
   get_eventTime d = Inr t \<Longrightarrow>
   sns_arguments d =
     Inr (''AWS '' @ py_str n @ '' Notification'',
          py_str n @ '' action has been made for Account '' @ py_str a @ ''\<newline>\<newline>'' @
          ''Action: '' @ py_str n @ '' \<newline>'' @
          ''   Target Account: '' @ py_str a @ ''\<newline>'' @
          ''   Calling Principal: '' @ p @ '' \<newline>'' @
          ''   TimeStamp: '' @ py_str t)"
  by (simp add: sns_arguments_def)

lemma sns_arguments_principal_error:
  "get_eventName d = Inr n \<Longrightarrow> get_accountId d = Inr a \<Longrightarrow> get_principal d = Inl err \<Longrightarrow>
   sns_arguments d = Inl err"
  by (simp add: sns_arguments_def)

lemma slack_blocks_fields:
  "get_eventName d = Inr n \<Longrightarrow> get_accountId d = Inr a \<Longrightarrow> get_principal d = Inr p \<Longrightarrow>
   get_eventTime d = Inr t \<Longrightarrow>
   slack_blocks d =
     Inr (PDict [(''blocks'', PList
       [PDict [(''type'', PStr ''header''),
               (''text'', PDict [(''type'', PStr ''plain_text''),
                                 (''text'', PStr (''AWS '' @ py_str n @ '' Notification''))])],
        PDict [(''type'', PStr ''section''),
               (''fields'', PList
                 [PDict [(''type'', PStr ''mrkdwn''), (''text'', PStr (''*Action:*\<newline>'' @ py_str n))],
                  PDict [(''type'', PStr ''mrkdwn''), (''text'', PStr (''*Target Account:*\<newline>'' @ py_str a))],
                  PDict [(''type'', PStr ''mrkdwn''), (''text'', PStr (''*Calling Principal:*\<newline>'' @ p))],
                  PDict [(''type'', PStr ''mrkdwn''), (''text'', PStr (''*TimeStamp:*\<newline>'' @ py_str t))]])]])])"
  by (simp add: slack_blocks_def mrkdwn_def)

subsection \<open>Dispatch calls in a trace\<close>

lemma event_name_Inr:
  "event_name event = Inr n \<longleftrightarrow> (\<exists>d. py_getitem event ''detail'' = Inr d \<and> py_getitem d ''eventName'' = Inr n)"
  by (cases "py_getitem event ''detail''") (simp_all add: event_name_def)

lemma dispatched_append [simp]: "dispatched (xs @ ys) \<longleftrightarrow> dispatched xs \<or> dispatched ys"
  by (simp add: dispatched_def)

lemma dispatched_Cons [simp]: "dispatched (e # tr) \<longleftrightarrow> is_publish e \<or> is_post e \<or> dispatched tr"
  by (simp add: dispatched_def)

lemma dispatched_Nil [simp]: "\<not> dispatched []"
  by (simp add: dispatched_def)

lemma list_ex_publish_published: "list_ex is_publish tr \<longleftrightarrow> published tr \<noteq> []"
  by (induction tr rule: published.induct) simp_all

lemma list_ex_post_posted: "list_ex is_post tr \<longleftrightarrow> posted tr \<noteq> []"
  by (induction tr rule: posted.induct) simp_all

lemma dispatched_iff: "dispatched tr \<longleftrightarrow> published tr \<noteq> [] \<or> posted tr \<noteq> []"
  by (induction tr) (auto simp: list_ex_publish_published [symmetric] list_ex_post_posted [symmetric]
      elim: is_publish.elims is_post.elims)

lemma filter_publish_send_sns:
  "filter is_publish (effects (send_sns_notification cfg d)) =
     (case sns_arguments d of Inl err \<Rightarrow> [] | Inr (s, m) \<Rightarrow> [Publish (SNS_TOPIC_ARN cfg) s m])"
  by (simp add: send_sns_effects split: sum.splits prod.splits)


lemma filter_publish_send_slack: "filter is_publish (effects (send_slack_notification cfg d)) = []"
  by (cases "slack_blocks d") (simp_all add: send_slack_format_error send_slack_formatted split: sum.splits)


text \<open>A closure event with its four fields present, as strings.\<close>

lemma closure_event_run:
  assumes "py_getitem event ''detail'' = Inr d"
    and "py_getitem d ''eventName'' = Inr (PStr n)"
    and "n = ''CloseAccount'' \<or> n = ''RemoveAccountFromOrganization''"
    and "py_getitem d ''requestParameters'' = Inr rp" and "py_getitem rp ''accountId'' = Inr (PStr a)"
    and "py_getitem d ''userIdentity'' = Inr ui" and "py_getitem ui ''principalId'' = Inr (PStr pid)"
    and "CHR '':'' \<in> set pid"
    and "py_getitem d ''eventTime'' = Inr (PStr t)"
  shows "get_eventName d = Inr (PStr n)" and "get_accountId d = Inr (PStr a)"
    and "get_principal d = Inr (split_on CHR '':'' pid ! 1)" and "get_eventTime d = Inr (PStr t)"
    and "lambda_handler cfg event =
      (LogInfo (''Received CloudWatch event of '' @ n @ '' API for Account ID '' @ a) #
       LogInfo (''Sending SNS Notification for received event '' @ n) #
         effects (send_sns_notification cfg d) @
         (if SLACK_NOTIFICATION cfg
          then LogInfo (''Sending SLACK Notification for received event '' @ n) #
                 effects (send_slack_notification cfg d)
          else []),
       if SLACK_NOTIFICATION cfg then outcome (send_slack_notification cfg d) else Inr ())"
proof -
  show "get_eventName d = Inr (PStr n)"
    using assms(2) by (simp add: get_eventName_def py_getitem_get)
  show "get_accountId d = Inr (PStr a)"
    using assms(4,5) by (rule get_accountId_of)
  show "get_principal d = Inr (split_on CHR '':'' pid ! 1)"
    using assms(6-8) by (simp add: get_principal_second py_getitem_get)
  show "get_eventTime d = Inr (PStr t)"
    using assms(9) by (simp add: get_eventTime_def py_getitem_get)
  have "PStr n \<in> set [PStr ''CloseAccount'', PStr ''RemoveAccountFromOrganization'']"
    using assms(3) by auto
  from lambda_handler_closure [OF assms(1,2) this received_text_of [OF assms(2,4,5)], of cfg]
  show "lambda_handler cfg event =
      (LogInfo (''Received CloudWatch event of '' @ n @ '' API for Account ID '' @ a) #
       LogInfo (''Sending SNS Notification for received event '' @ n) #
         effects (send_sns_notification cfg d) @
         (if SLACK_NOTIFICATION cfg
          then LogInfo (''Sending SLACK Notification for received event '' @ n) #
                 effects (send_slack_notification cfg d)
          else []),
       if SLACK_NOTIFICATION cfg then outcome (send_slack_notification cfg d) else Inr ())"
    by simp
qed

subsection \<open>The end-to-end scenario\<close>

lemma scenario_sns_arguments:
  "sns_arguments (closure_detail ''CloseAccount'' ''AIDAEXAMPLE:bob'') =
     Inr (''AWS CloseAccount Notification'', scenario_message)"
  unfolding scenario_message_def by code_simp

lemma scenario_slack_blocks:
  "slack_blocks (closure_detail ''CloseAccount'' ''AIDAEXAMPLE:bob'') = Inr scenario_blocks"
  unfolding scenario_blocks_def by code_simp

section \<open>The claims\<close>

text \<open>
  C1 (as amended). A dispatch call (\<open>publish\<close> or the webhook POST) is made only if
  \<open>detail.eventName\<close> is exactly \<open>CloseAccount\<close> or
  \<open>RemoveAccountFromOrganization\<close>. An event whose \<open>eventName\<close> is anything else
  makes no dispatch call and ends normally, with the one informational log line. An
  event with one of the two names that also carries \<open>requestParameters.accountId\<close>
  and a \<open>principalId\<close> with a colon is published, and posted exactly when the chat
  flag is on.
\<close>

theorem dispatch_only_for_closure_events:
  "(dispatched (effects (lambda_handler cfg event)) \<longrightarrow>
      event_name event = Inr (PStr ''CloseAccount'') \<or>
      event_name event = Inr (PStr ''RemoveAccountFromOrganization'')) \<and>
   (event_name event = Inr n \<and> n \<noteq> PStr ''CloseAccount'' \<and> n \<noteq> PStr ''RemoveAccountFromOrganization'' \<longrightarrow>
      lambda_handler cfg event =
        ([LogInfo ''Event received is not associated with CloseAccount/RemoveAccountFromOrganization API call''],
         Inr ())) \<and>
   (py_getitem event ''detail'' = Inr d \<and> py_getitem d ''eventName'' = Inr n \<and>
    n \<in> set [PStr ''CloseAccount'', PStr ''RemoveAccountFromOrganization''] \<and>
    py_getitem d ''requestParameters'' = Inr rp \<and> py_getitem rp ''accountId'' = Inr a \<and>
    py_getitem d ''userIdentity'' = Inr ui \<and> py_getitem ui ''principalId'' = Inr (PStr pid) \<and>
    CHR '':'' \<in> set pid \<longrightarrow>
      list_ex is_publish (effects (lambda_handler cfg event)) \<and>
      (list_ex is_post (effects (lambda_handler cfg event)) \<longleftrightarrow> SLACK_NOTIFICATION cfg))"
proof (intro conjI impI)
  assume "dispatched (effects (lambda_handler cfg event))"
  then show "event_name event = Inr (PStr ''CloseAccount'') \<or>
      event_name event = Inr (PStr ''RemoveAccountFromOrganization'')"
    by (cases cfg event rule: lambda_handler_cases) (auto simp: event_name_def)
next
  assume "event_name event = Inr n \<and> n \<noteq> PStr ''CloseAccount'' \<and> n \<noteq> PStr ''RemoveAccountFromOrganization''"
  then show "lambda_handler cfg event =
        ([LogInfo ''Event received is not associated with CloseAccount/RemoveAccountFromOrganization API call''],
         Inr ())"
    by (auto simp: event_name_Inr lambda_handler_other)
next
  assume h: "py_getitem event ''detail'' = Inr d \<and> py_getitem d ''eventName'' = Inr n \<and>
    n \<in> set [PStr ''CloseAccount'', PStr ''RemoveAccountFromOrganization''] \<and>
    py_getitem d ''requestParameters'' = Inr rp \<and> py_getitem rp ''accountId'' = Inr a \<and>
    py_getitem d ''userIdentity'' = Inr ui \<and> py_getitem ui ''principalId'' = Inr (PStr pid) \<and>
    CHR '':'' \<in> set pid"
  then have rt: "received_text d = Inr (''Received CloudWatch event of '' @ py_str n @ '' API for Account ID '' @ py_str a)"
    by (simp add: received_text_of)
  from h have n: "get_eventName d = Inr n"
    by (simp add: get_eventName_def py_getitem_get)
  from h have a: "get_accountId d = Inr a"
    by (simp add: get_accountId_of)
  from h have p: "get_principal d = Inr (split_on CHR '':'' pid ! 1)"
    by (simp add: get_principal_second py_getitem_get)
  from h obtain t where t: "get_eventTime d = Inr t"
    by (cases d) (auto simp: get_eventTime_def)
  note sns = sns_arguments_fields [OF n a p t]
  note slack = slack_blocks_fields [OF n a p t]
  from h have eq: "lambda_handler cfg event =
     (LogInfo (''Received CloudWatch event of '' @ py_str n @ '' API for Account ID '' @ py_str a) #
      LogInfo (''Sending SNS Notification for received event '' @ py_str n) #
        effects (send_sns_notification cfg d) @
        (if SLACK_NOTIFICATION cfg
         then LogInfo (''Sending SLACK Notification for received event '' @ py_str n) #
                effects (send_slack_notification cfg d)
         else []),
      if SLACK_NOTIFICATION cfg then outcome (send_slack_notification cfg d) else Inr ())"
    using rt by (simp add: lambda_handler_closure)
  show "list_ex is_publish (effects (lambda_handler cfg event))"
    unfolding eq using sns by (simp add: send_sns_publish_iff)
  show "list_ex is_post (effects (lambda_handler cfg event)) \<longleftrightarrow> SLACK_NOTIFICATION cfg"
    unfolding eq using slack send_sns_no_post [of cfg d] by (simp add: send_slack_post_iff)
qed

theorem dispatch_only_for_closure_events_witness:
  "dispatched (effects (lambda_handler env_up (closure_event ''CloseAccount'' ''AIDAEXAMPLE:bob''))) \<and>
   event_name (closure_event ''CloseAccount'' ''AIDAEXAMPLE:bob'') = Inr (PStr ''CloseAccount'') \<and>
   event_name (closure_event ''CreateAccount'' ''AIDAEXAMPLE:bob'') = Inr (PStr ''CreateAccount'') \<and>
   lambda_handler env_up (closure_event ''CreateAccount'' ''AIDAEXAMPLE:bob'') =
     ([LogInfo ''Event received is not associated with CloseAccount/RemoveAccountFromOrganization API call''],
      Inr ()) \<and>
   list_ex is_publish (effects (lambda_handler env_up (closure_event ''CloseAccount'' ''AIDAEXAMPLE:bob''))) \<and>
   list_ex is_post (effects (lambda_handler env_up (closure_event ''CloseAccount'' ''AIDAEXAMPLE:bob'')))"
proof -
  let ?ev = "closure_event ''CloseAccount'' ''AIDAEXAMPLE:bob''"
  let ?d = "closure_detail ''CloseAccount'' ''AIDAEXAMPLE:bob''"
  let ?other = "closure_event ''CreateAccount'' ''AIDAEXAMPLE:bob''"
  have fields: "py_getitem ?ev ''detail'' = Inr ?d \<and> py_getitem ?d ''eventName'' = Inr (PStr ''CloseAccount'') \<and>
      PStr ''CloseAccount'' \<in> set [PStr ''CloseAccount'', PStr ''RemoveAccountFromOrganization''] \<and>
      py_getitem ?d ''requestParameters'' = Inr (PDict [(''accountId'', PStr ''123456789012'')]) \<and>
      py_getitem (PDict [(''accountId'', PStr ''123456789012'')]) ''accountId'' = Inr (PStr ''123456789012'') \<and>
      py_getitem ?d ''userIdentity'' = Inr (PDict [(''principalId'', PStr ''AIDAEXAMPLE:bob'')]) \<and>
      py_getitem (PDict [(''principalId'', PStr ''AIDAEXAMPLE:bob'')]) ''principalId'' = Inr (PStr ''AIDAEXAMPLE:bob'') \<and>
      CHR '':'' \<in> set ''AIDAEXAMPLE:bob''"
    by (simp add: closure_event_def closure_detail_def)
  have name: "event_name ?ev = Inr (PStr ''CloseAccount'')"
    by (simp add: event_name_def closure_event_def closure_detail_def)
  have other: "event_name ?other = Inr (PStr ''CreateAccount'') \<and>
      PStr ''CreateAccount'' \<noteq> PStr ''CloseAccount'' \<and> PStr ''CreateAccount'' \<noteq> PStr ''RemoveAccountFromOrganization''"
    by (simp add: event_name_def closure_event_def closure_detail_def)
  have flag: "SLACK_NOTIFICATION env_up"
    by (simp add: env_up_def)
  have pub: "list_ex is_publish (effects (lambda_handler env_up ?ev)) \<and> list_ex is_post (effects (lambda_handler env_up ?ev))"
    using fields flag
      dispatch_only_for_closure_events [of env_up ?ev "PStr ''CloseAccount''" ?d
        "PDict [(''accountId'', PStr ''123456789012'')]" "PStr ''123456789012''"
        "PDict [(''principalId'', PStr ''AIDAEXAMPLE:bob'')]" "''AIDAEXAMPLE:bob''"]
    by blast
  then have "dispatched (effects (lambda_handler env_up ?ev))"
    by (auto simp: dispatched_iff list_ex_publish_published)
  moreover have "lambda_handler env_up ?other =
     ([LogInfo ''Event received is not associated with CloseAccount/RemoveAccountFromOrganization API call''],
      Inr ())"
    using other dispatch_only_for_closure_events [of env_up ?other "PStr ''CreateAccount''"]
    by blast
  ultimately show ?thesis
    using name other pub by simp
qed

text \<open>
  The equivalence fails from right to left: \<open>eventName\<close> is \<open>CloseAccount\<close> and yet
  nothing is dispatched, once because the log line before the dispatch raises (no
  \<open>requestParameters\<close>), once because the message cannot be built (no colon in
  \<open>principalId\<close>, chat off) and the invocation still ends normally.
\<close>

theorem dispatch_iff_closure_counterexample:
  "event_name event_without_account = Inr (PStr ''CloseAccount'') \<and>
   \<not> dispatched (effects (lambda_handler env_up event_without_account)) \<and>
   lambda_handler env_up event_without_account = ([], Inl (KeyError ''requestParameters'')) \<and>
   event_name (closure_event ''CloseAccount'' ''AIDAEXAMPLE'') = Inr (PStr ''CloseAccount'') \<and>
   \<not> dispatched (effects (lambda_handler env_quiet (closure_event ''CloseAccount'' ''AIDAEXAMPLE''))) \<and>
   outcome (lambda_handler env_quiet (closure_event ''CloseAccount'' ''AIDAEXAMPLE'')) = Inr ()"
proof -
  have "event_name event_without_account = Inr (PStr ''CloseAccount'')"
    and "lambda_handler env_up event_without_account = ([], Inl (KeyError ''requestParameters''))"
    by (simp_all add: event_without_account_def event_name_def lambda_handler_def received_text_def)
  moreover have "event_name (closure_event ''CloseAccount'' ''AIDAEXAMPLE'') = Inr (PStr ''CloseAccount'')"
    by (simp add: event_name_def closure_event_def closure_detail_def)
  moreover have "lambda_handler env_quiet (closure_event ''CloseAccount'' ''AIDAEXAMPLE'') =
     ([LogInfo ''Received CloudWatch event of CloseAccount API for Account ID 123456789012'',
       LogInfo ''Sending SNS Notification for received event CloseAccount'',
       LogException ''Failed to send SNS notification: '' IndexError],
      Inr ())"
    by code_simp
  ultimately show ?thesis
    by simp
qed

text \<open>
  C2 (as amended). When \<open>principalId\<close> is a string without a colon, building either
  message raises \<open>IndexError\<close> and produces no text, so neither \<open>publish\<close> nor the
  POST is called. \<open>send_slack_notification\<close> lets the exception out, and the
  invocation fails when the chat flag is on; \<open>send_sns_notification\<close> catches and logs
  it, and with the chat flag off the invocation ends normally.
\<close>

theorem principal_without_colon:
  assumes "py_getitem event ''detail'' = Inr d"
    and "py_getitem d ''eventName'' = Inr n"
    and "n \<in> set [PStr ''CloseAccount'', PStr ''RemoveAccountFromOrganization'']"
    and "py_getitem d ''requestParameters'' = Inr rp" and "py_getitem rp ''accountId'' = Inr a"
    and "py_getitem d ''userIdentity'' = Inr ui" and "py_getitem ui ''principalId'' = Inr (PStr pid)"
    and "CHR '':'' \<notin> set pid"
  shows "sns_arguments d = Inl IndexError \<and> slack_blocks d = Inl IndexError \<and>
    send_sns_notification cfg d = ([LogException ''Failed to send SNS notification: '' IndexError], Inr ()) \<and>
    send_slack_notification cfg d = ([], Inl IndexError) \<and>
    \<not> dispatched (effects (lambda_handler cfg event)) \<and>
    outcome (lambda_handler cfg event) = (if SLACK_NOTIFICATION cfg then Inl IndexError else Inr ())"
proof -
  have n: "get_eventName d = Inr n"
    using assms(2) by (simp add: get_eventName_def py_getitem_get)
  have a: "get_accountId d = Inr a"
    using assms(4,5) by (rule get_accountId_of)
  have p: "get_principal d = Inl IndexError"
    using assms(6-8) by (simp add: get_principal_no_colon py_getitem_get)
  have sns: "sns_arguments d = Inl IndexError"
    using n a p by (rule sns_arguments_principal_error)
  then have slack: "slack_blocks d = Inl IndexError"
    by (rule format_errors_agree)
  note s1 = send_sns_format_error [OF sns, of cfg]
  note s2 = send_slack_format_error [OF slack, of cfg]
  have "lambda_handler cfg event =
     (LogInfo (''Received CloudWatch event of '' @ py_str n @ '' API for Account ID '' @ py_str a) #
      LogInfo (''Sending SNS Notification for received event '' @ py_str n) #
        effects (send_sns_notification cfg d) @
        (if SLACK_NOTIFICATION cfg
         then LogInfo (''Sending SLACK Notification for received event '' @ py_str n) #
                effects (send_slack_notification cfg d)
         else []),
      if SLACK_NOTIFICATION cfg then outcome (send_slack_notification cfg d) else Inr ())"
    using assms(1-3) received_text_of [OF assms(2,4,5)] by (rule lambda_handler_closure)
  then have "\<not> dispatched (effects (lambda_handler cfg event))"
    and "outcome (lambda_handler cfg event) = (if SLACK_NOTIFICATION cfg then Inl IndexError else Inr ())"
    by (simp_all add: s1 s2)
  with sns slack s1 s2 show ?thesis
    by simp
qed

theorem principal_without_colon_witness:
  "send_sns_notification env_up (closure_detail ''CloseAccount'' ''AIDAEXAMPLE'') =
     ([LogException ''Failed to send SNS notification: '' IndexError], Inr ()) \<and>
   send_slack_notification env_up (closure_detail ''CloseAccount'' ''AIDAEXAMPLE'') = ([], Inl IndexError) \<and>
   \<not> dispatched (effects (lambda_handler env_up (closure_event ''CloseAccount'' ''AIDAEXAMPLE''))) \<and>
   outcome (lambda_handler env_up (closure_event ''CloseAccount'' ''AIDAEXAMPLE'')) = Inl IndexError"
proof -
  let ?ev = "closure_event ''CloseAccount'' ''AIDAEXAMPLE''"
  let ?d = "closure_detail ''CloseAccount'' ''AIDAEXAMPLE''"
  have "py_getitem ?ev ''detail'' = Inr ?d"
    and "py_getitem ?d ''eventName'' = Inr (PStr ''CloseAccount'')"
    and "PStr ''CloseAccount'' \<in> set [PStr ''CloseAccount'', PStr ''RemoveAccountFromOrganization'']"
    and "py_getitem ?d ''requestParameters'' = Inr (PDict [(''accountId'', PStr ''123456789012'')])"
    and "py_getitem (PDict [(''accountId'', PStr ''123456789012'')]) ''accountId'' = Inr (PStr ''123456789012'')"
    and "py_getitem ?d ''userIdentity'' = Inr (PDict [(''principalId'', PStr ''AIDAEXAMPLE'')])"
    and "py_getitem (PDict [(''principalId'', PStr ''AIDAEXAMPLE'')]) ''principalId'' = Inr (PStr ''AIDAEXAMPLE'')"
    and "CHR '':'' \<notin> set ''AIDAEXAMPLE''"
    by (simp_all add: closure_event_def closure_detail_def)
  from principal_without_colon [OF this, of env_up] show ?thesis
    by (simp add: env_up_def)
qed

text \<open>
  With the chat flag off the malformed identifier is not fatal: the invocation returns
  normally, and only the log shows the error.
\<close>

theorem fatal_without_colon_counterexample:
  "py_getitem (closure_detail ''CloseAccount'' ''AIDAEXAMPLE'') ''userIdentity'' =
     Inr (PDict [(''principalId'', PStr ''AIDAEXAMPLE'')]) \<and>
   CHR '':'' \<notin> set ''AIDAEXAMPLE'' \<and>
   lambda_handler env_quiet (closure_event ''CloseAccount'' ''AIDAEXAMPLE'') =
     ([LogInfo ''Received CloudWatch event of CloseAccount API for Account ID 123456789012'',
       LogInfo ''Sending SNS Notification for received event CloseAccount'',
       LogException ''Failed to send SNS notification: '' IndexError],
      Inr ())"
  by code_simp

text \<open>
  C3. An exception of \<open>publish\<close> is caught in \<open>send_sns_notification\<close>, logged, and
  the function returns normally; likewise for the POST in \<open>send_slack_notification\<close>.
  In the handler, whenever \<open>publish\<close> was called (whether it raised or not) the
  invocation ends normally and, with the chat flag on, the POST is made; and whenever
  the POST was made, \<open>publish\<close> had been called.
\<close>

theorem dispatch_failures_are_swallowed:
  "(sns_arguments d = Inr (subject, message) \<and>
    sns_publish cfg (SNS_TOPIC_ARN cfg) subject message = Inl e \<longrightarrow>
      send_sns_notification cfg d =
        ([Publish (SNS_TOPIC_ARN cfg) subject message,
          LogException ''Failed to send SNS notification: '' (Raised e)], Inr ())) \<and>
   (slack_blocks d = Inr blocks \<and>
    http_request cfg (SLACK_ENDPOINT cfg) [(''Content-Type'', ''application/json'')] (json_dumps blocks) = Inl e' \<longrightarrow>
      send_slack_notification cfg d =
        ([Post (SLACK_ENDPOINT cfg) [(''Content-Type'', ''application/json'')] (json_dumps blocks),
          LogException ''Failed to send SLACK notification: '' (Raised e')], Inr ())) \<and>
   (list_ex is_publish (effects (lambda_handler cfg event)) \<longrightarrow>
      outcome (lambda_handler cfg event) = Inr () \<and>
      (SLACK_NOTIFICATION cfg \<longrightarrow> list_ex is_post (effects (lambda_handler cfg event)))) \<and>
   (list_ex is_post (effects (lambda_handler cfg event)) \<longrightarrow>
      outcome (lambda_handler cfg event) = Inr () \<and>
      list_ex is_publish (effects (lambda_handler cfg event)))"
proof -
  have sns: "send_sns_notification cfg d =
        ([Publish (SNS_TOPIC_ARN cfg) subject message,
          LogException ''Failed to send SNS notification: '' (Raised e)], Inr ())"
    if "sns_arguments d = Inr (subject, message)"
      and "sns_publish cfg (SNS_TOPIC_ARN cfg) subject message = Inl e"
    using that by (rule send_sns_publish_raises)
  have slack: "send_slack_notification cfg d =
        ([Post (SLACK_ENDPOINT cfg) [(''Content-Type'', ''application/json'')] (json_dumps blocks),
          LogException ''Failed to send SLACK notification: '' (Raised e')], Inr ())"
    if "slack_blocks d = Inr blocks"
      and "http_request cfg (SLACK_ENDPOINT cfg) [(''Content-Type'', ''application/json'')] (json_dumps blocks) = Inl e'"
    using that by (simp add: send_slack_formatted)
  have after_publish: "outcome (lambda_handler cfg event) = Inr () \<and>
      (SLACK_NOTIFICATION cfg \<longrightarrow> list_ex is_post (effects (lambda_handler cfg event)))"
    if pub: "list_ex is_publish (effects (lambda_handler cfg event))"
    using pub
  proof (cases cfg event rule: lambda_handler_cases)
    case (closure d' n msg)
    with pub have "list_ex is_publish (effects (send_sns_notification cfg d'))"
      using send_slack_no_publish [of cfg d'] by (simp split: if_splits)
    then obtain sm where "sns_arguments d' = Inr sm"
      by (auto simp: send_sns_publish_iff)
    then obtain b where "slack_blocks d' = Inr b"
      using slack_blocks_of_arguments by blast
    then show ?thesis
      by (simp add: closure(5) send_slack_formatted)
  qed simp_all
  have after_post: "outcome (lambda_handler cfg event) = Inr () \<and>
      list_ex is_publish (effects (lambda_handler cfg event))"
    if post: "list_ex is_post (effects (lambda_handler cfg event))"
    using post
  proof (cases cfg event rule: lambda_handler_cases)
    case (closure d' n msg)
    with post have "list_ex is_post (effects (send_slack_notification cfg d'))"
      using send_sns_no_post [of cfg d'] by (simp split: if_splits)
    then obtain b where b: "slack_blocks d' = Inr b"
      by (auto simp: send_slack_post_iff)
    then obtain sm where "sns_arguments d' = Inr sm"
      using format_errors_agree [of d'] by (cases "sns_arguments d'") auto
    with b show ?thesis
      by (simp add: closure(5) send_slack_formatted send_sns_publish_iff)
  qed simp_all
  from sns slack after_publish after_post show ?thesis
    by blast
qed

theorem dispatch_failures_are_swallowed_witness:
  "send_sns_notification env_down (closure_detail ''CloseAccount'' ''AIDAEXAMPLE:bob'') =
     ([Publish (SNS_TOPIC_ARN env_down) ''AWS CloseAccount Notification'' scenario_message,
       LogException ''Failed to send SNS notification: '' (Raised ''EndpointConnectionError'')], Inr ()) \<and>
   send_slack_notification env_down (closure_detail ''CloseAccount'' ''AIDAEXAMPLE:bob'') =
     ([Post (SLACK_ENDPOINT env_down) [(''Content-Type'', ''application/json'')] (json_dumps scenario_blocks),
       LogException ''Failed to send SLACK notification: '' (Raised ''MaxRetryError'')], Inr ()) \<and>
   list_ex is_publish (effects (lambda_handler env_down (closure_event ''CloseAccount'' ''AIDAEXAMPLE:bob''))) \<and>
   SLACK_NOTIFICATION env_down \<and>
   list_ex is_post (effects (lambda_handler env_down (closure_event ''CloseAccount'' ''AIDAEXAMPLE:bob''))) \<and>
   outcome (lambda_handler env_down (closure_event ''CloseAccount'' ''AIDAEXAMPLE:bob'')) = Inr ()"
proof -
  let ?ev = "closure_event ''CloseAccount'' ''AIDAEXAMPLE:bob''"
  let ?d = "closure_detail ''CloseAccount'' ''AIDAEXAMPLE:bob''"
  have publish: "sns_publish env_down (SNS_TOPIC_ARN env_down) ''AWS CloseAccount Notification'' scenario_message =
      Inl ''EndpointConnectionError''"
    by (simp add: env_down_def)
  have post: "http_request env_down (SLACK_ENDPOINT env_down) [(''Content-Type'', ''application/json'')]
      (json_dumps scenario_blocks) = Inl ''MaxRetryError''"
    by (simp add: env_down_def)
  have flag: "SLACK_NOTIFICATION env_down"
    by (simp add: env_down_def env_up_def)
  have pub: "list_ex is_publish (effects (lambda_handler env_down ?ev))"
    by code_simp
  note inst = dispatch_failures_are_swallowed [of ?d "''AWS CloseAccount Notification''" scenario_message
      env_down "''EndpointConnectionError''" scenario_blocks "''MaxRetryError''" ?ev]
  from inst scenario_sns_arguments scenario_slack_blocks publish post flag pub show ?thesis
    by blast
qed

text \<open>
  C4. When \<open>principalId\<close> is a string with a colon, the calling principal is element 1
  of \<open>principalId.split(':')\<close>, and that text is what both the plain-text message and
  the block document carry after their "Calling Principal" label. For
  \<open>AIDAEXAMPLE:alice\<close> it is \<open>alice\<close>.
\<close>

theorem principal_is_second_segment:
  assumes "get_eventName d = Inr n" and "get_accountId d = Inr a" and "get_eventTime d = Inr t"
    and "py_get d ''userIdentity'' = Inr ui" and "py_get ui ''principalId'' = Inr (PStr pid)"
    and "CHR '':'' \<in> set pid"
  shows "get_principal d = Inr (split_on CHR '':'' pid ! 1) \<and>
    sns_arguments d =
      Inr (''AWS '' @ py_str n @ '' Notification'',
           py_str n @ '' action has been made for Account '' @ py_str a @ ''\<newline>\<newline>'' @
           ''Action: '' @ py_str n @ '' \<newline>'' @
           ''   Target Account: '' @ py_str a @ ''\<newline>'' @
           ''   Calling Principal: '' @ split_on CHR '':'' pid ! 1 @ '' \<newline>'' @
           ''   TimeStamp: '' @ py_str t) \<and>
    slack_blocks d =
      Inr (PDict [(''blocks'', PList
        [PDict [(''type'', PStr ''header''),
                (''text'', PDict [(''type'', PStr ''plain_text''),
                                  (''text'', PStr (''AWS '' @ py_str n @ '' Notification''))])],
         PDict [(''type'', PStr ''section''),
                (''fields'', PList
                  [PDict [(''type'', PStr ''mrkdwn''), (''text'', PStr (''*Action:*\<newline>'' @ py_str n))],
                   PDict [(''type'', PStr ''mrkdwn''), (''text'', PStr (''*Target Account:*\<newline>'' @ py_str a))],
                   PDict [(''type'', PStr ''mrkdwn''),
                          (''text'', PStr (''*Calling Principal:*\<newline>'' @ split_on CHR '':'' pid ! 1))],
                   PDict [(''type'', PStr ''mrkdwn''), (''text'', PStr (''*TimeStamp:*\<newline>'' @ py_str t))]])]])]) \<and>
    split_on CHR '':'' ''AIDAEXAMPLE:alice'' ! 1 = ''alice''"
proof -
  have p: "get_principal d = Inr (split_on CHR '':'' pid ! 1)"
    using assms(4-6) by (rule get_principal_second)
  have ex: "split_on CHR '':'' ''AIDAEXAMPLE:alice'' ! 1 = ''alice''"
    by simp
  show ?thesis
    using p ex sns_arguments_fields [OF assms(1,2) p assms(3)] slack_blocks_fields [OF assms(1,2) p assms(3)]
    by simp
qed

theorem principal_is_second_segment_witness:
  "get_principal (closure_detail ''CloseAccount'' ''AIDAEXAMPLE:alice'') = Inr ''alice'' \<and>
   sns_arguments (closure_detail ''CloseAccount'' ''AIDAEXAMPLE:alice'') =
     Inr (''AWS CloseAccount Notification'',
          ''CloseAccount action has been made for Account 123456789012\<newline>\<newline>Action: CloseAccount \<newline>   Target Account: 123456789012\<newline>   Calling Principal: alice \<newline>   TimeStamp: 2024-01-01T00:00:00Z'')"
proof -
  have "get_eventName (closure_detail ''CloseAccount'' ''AIDAEXAMPLE:alice'') = Inr (PStr ''CloseAccount'')"
    and "get_accountId (closure_detail ''CloseAccount'' ''AIDAEXAMPLE:alice'') = Inr (PStr ''123456789012'')"
    and "get_eventTime (closure_detail ''CloseAccount'' ''AIDAEXAMPLE:alice'') = Inr (PStr ''2024-01-01T00:00:00Z'')"
    and "py_get (closure_detail ''CloseAccount'' ''AIDAEXAMPLE:alice'') ''userIdentity'' =
           Inr (PDict [(''principalId'', PStr ''AIDAEXAMPLE:alice'')])"
    and "py_get (PDict [(''principalId'', PStr ''AIDAEXAMPLE:alice'')]) ''principalId'' = Inr (PStr ''AIDAEXAMPLE:alice'')"
    and "CHR '':'' \<in> set ''AIDAEXAMPLE:alice''"
    by (simp_all add: closure_detail_def get_eventName_def get_accountId_def get_eventTime_def)
  from principal_is_second_segment [OF this] show ?thesis
    by simp
qed

text \<open>
  C5. For a \<open>CloseAccount\<close> or \<open>RemoveAccountFromOrganization\<close> event whose four
  fields are strings, exactly one \<open>publish\<close> call is made, to the configured topic:
  its subject is \<open>AWS <eventName> Notification\<close>, and its message is a heading line,
  an empty line, and then the action, the target account, the calling principal and
  the timestamp, one per line, each value as it stands in the detail.
\<close>

theorem published_subject_and_body:
  assumes "py_getitem event ''detail'' = Inr d"
    and "py_getitem d ''eventName'' = Inr (PStr n)"
    and "n = ''CloseAccount'' \<or> n = ''RemoveAccountFromOrganization''"
    and "py_getitem d ''requestParameters'' = Inr rp" and "py_getitem rp ''accountId'' = Inr (PStr a)"
    and "py_getitem d ''userIdentity'' = Inr ui" and "py_getitem ui ''principalId'' = Inr (PStr pid)"
    and "CHR '':'' \<in> set pid"
    and "py_getitem d ''eventTime'' = Inr (PStr t)"
  shows "filter is_publish (effects (lambda_handler cfg event)) =
    [Publish (SNS_TOPIC_ARN cfg)
       (''AWS '' @ n @ '' Notification'')
       (join ''\<newline>''
          [n @ '' action has been made for Account '' @ a,
           [],
           ''Action: '' @ n @ '' '',
           ''   Target Account: '' @ a,
           ''   Calling Principal: '' @ split_on CHR '':'' pid ! 1 @ '' '',
           ''   TimeStamp: '' @ t])]"
proof -
  note run = closure_event_run [OF assms]
  have "sns_arguments d =
     Inr (''AWS '' @ n @ '' Notification'',
          n @ '' action has been made for Account '' @ a @ ''\<newline>\<newline>'' @
          ''Action: '' @ n @ '' \<newline>'' @
          ''   Target Account: '' @ a @ ''\<newline>'' @
          ''   Calling Principal: '' @ split_on CHR '':'' pid ! 1 @ '' \<newline>'' @
          ''   TimeStamp: '' @ t)"
    using sns_arguments_fields [OF run(1-4)] by simp
  then show ?thesis
    by (simp add: run(5) filter_publish_send_sns filter_publish_send_slack)
qed

theorem published_subject_and_body_witness:
  "filter is_publish (effects (lambda_handler env_up (closure_event ''CloseAccount'' ''AIDAEXAMPLE:bob''))) =
    [Publish (Some ''arn:aws:sns:eu-west-1:111122223333:account-closure'')
       ''AWS CloseAccount Notification''
       ''CloseAccount action has been made for Account 123456789012\<newline>\<newline>Action: CloseAccount \<newline>   Target Account: 123456789012\<newline>   Calling Principal: bob \<newline>   TimeStamp: 2024-01-01T00:00:00Z'']"
proof -
  let ?ev = "closure_event ''CloseAccount'' ''AIDAEXAMPLE:bob''"
  let ?d = "closure_detail ''CloseAccount'' ''AIDAEXAMPLE:bob''"
  have "py_getitem ?ev ''detail'' = Inr ?d"
    and "py_getitem ?d ''eventName'' = Inr (PStr ''CloseAccount'')"
    and "''CloseAccount'' = ''CloseAccount'' \<or> ''CloseAccount'' = ''RemoveAccountFromOrganization''"
    and "py_getitem ?d ''requestParameters'' = Inr (PDict [(''accountId'', PStr ''123456789012'')])"
    and "py_getitem (PDict [(''accountId'', PStr ''123456789012'')]) ''accountId'' = Inr (PStr ''123456789012'')"
    and "py_getitem ?d ''userIdentity'' = Inr (PDict [(''principalId'', PStr ''AIDAEXAMPLE:bob'')])"
    and "py_getitem (PDict [(''principalId'', PStr ''AIDAEXAMPLE:bob'')]) ''principalId'' = Inr (PStr ''AIDAEXAMPLE:bob'')"
    and "CHR '':'' \<in> set ''AIDAEXAMPLE:bob''"
    and "py_getitem ?d ''eventTime'' = Inr (PStr ''2024-01-01T00:00:00Z'')"
    by (simp_all add: closure_event_def closure_detail_def)
  from published_subject_and_body [OF this, of env_up] show ?thesis
    by (simp add: env_up_def)
qed



text \<open>
  C7. With the chat flag off, no invocation makes the webhook POST, whatever the event.
\<close>

theorem chat_flag_gates_post:
  assumes "\<not> SLACK_NOTIFICATION cfg"
  shows "\<not> list_ex is_post (effects (lambda_handler cfg event))"
proof (cases cfg event rule: lambda_handler_cases)
  case (closure d n msg)
  then show ?thesis
    using assms send_sns_no_post [of cfg d] by simp
qed simp_all

theorem chat_flag_gates_post_witness:
  "\<not> SLACK_NOTIFICATION env_quiet \<and>
   \<not> list_ex is_post (effects (lambda_handler env_quiet (closure_event ''CloseAccount'' ''AIDAEXAMPLE:bob''))) \<and>
   list_ex is_post (effects (lambda_handler env_up (closure_event ''CloseAccount'' ''AIDAEXAMPLE:bob'')))"
proof -
  have flag: "\<not> SLACK_NOTIFICATION env_quiet"
    by (simp add: env_quiet_def env_up_def)
  have "list_ex is_post (effects (lambda_handler env_up (closure_event ''CloseAccount'' ''AIDAEXAMPLE:bob'')))"
    by code_simp
  with flag chat_flag_gates_post [OF flag] show ?thesis
    by simp
qed

text \<open>
  C8. An event whose envelope has no \<open>detail\<close> key makes the first statement of the
  handler raise \<open>KeyError\<close>; the exception leaves the handler, and nothing was
  published, posted or logged before it.
\<close>

theorem missing_detail_is_fatal:
  assumes "''detail'' \<notin> fst ` set kvs"
  shows "lambda_handler cfg (PDict kvs) = ([], Inl (KeyError ''detail''))"
proof -
  from assms have "map_of kvs ''detail'' = None"
    by (simp add: map_of_eq_None_iff)
  then have "py_getitem (PDict kvs) ''detail'' = Inl (KeyError ''detail'')"
    by simp
  then show ?thesis
    by (rule lambda_handler_no_detail)
qed

theorem missing_detail_is_fatal_witness:
  "lambda_handler env_up (PDict [(''source'', PStr ''aws.organizations'')]) = ([], Inl (KeyError ''detail''))"
  using missing_detail_is_fatal [of "[(''source'', PStr ''aws.organizations'')]" env_up]
  by simp

text \<open>
  C9. What is published and what is posted is a function of the detail alone: two
  runs on the same detail, in any two environments (whatever the settings and whatever
  the external calls answer), hand the same subject and message to \<open>publish\<close> and the
  same body to the POST.
\<close>

theorem formatting_is_reproducible:
  "published (effects (send_sns_notification cfg1 d)) = published (effects (send_sns_notification cfg2 d)) \<and>
   posted (effects (send_slack_notification cfg1 d)) = posted (effects (send_slack_notification cfg2 d)) \<and>
   published (effects (lambda_handler cfg1 event)) = published (effects (lambda_handler cfg2 event)) \<and>
   (SLACK_NOTIFICATION cfg1 = SLACK_NOTIFICATION cfg2 \<longrightarrow>
      posted (effects (lambda_handler cfg1 event)) = posted (effects (lambda_handler cfg2 event)))"
proof -
  have "posted (effects (lambda_handler cfg1 event)) = posted (effects (lambda_handler cfg2 event))"
    if "SLACK_NOTIFICATION cfg1 = SLACK_NOTIFICATION cfg2"
    unfolding posted_lambda_handler that ..
  then show ?thesis
    by (simp add: published_send_sns posted_send_slack published_lambda_handler)
qed

theorem formatting_is_reproducible_witness:
  "published (effects (lambda_handler env_up (closure_event ''CloseAccount'' ''AIDAEXAMPLE:bob''))) =
     published (effects (lambda_handler env_down (closure_event ''CloseAccount'' ''AIDAEXAMPLE:bob''))) \<and>
   posted (effects (lambda_handler env_up (closure_event ''CloseAccount'' ''AIDAEXAMPLE:bob''))) =
     posted (effects (lambda_handler env_down (closure_event ''CloseAccount'' ''AIDAEXAMPLE:bob''))) \<and>
   SLACK_NOTIFICATION env_up = SLACK_NOTIFICATION env_down \<and>
   published (effects (send_sns_notification env_down (closure_detail ''CloseAccount'' ''AIDAEXAMPLE:bob''))) =
     [(''AWS CloseAccount Notification'', scenario_message)] \<and>
   posted (effects (send_slack_notification env_down (closure_detail ''CloseAccount'' ''AIDAEXAMPLE:bob''))) =
     [json_dumps scenario_blocks]"
proof -
  have flag: "SLACK_NOTIFICATION env_up = SLACK_NOTIFICATION env_down"
    by (simp add: env_down_def env_up_def)
  have "published (effects (send_sns_notification env_down (closure_detail ''CloseAccount'' ''AIDAEXAMPLE:bob''))) =
     [(''AWS CloseAccount Notification'', scenario_message)]"
    by (simp add: published_send_sns scenario_sns_arguments)
  moreover have "posted (effects (send_slack_notification env_down (closure_detail ''CloseAccount'' ''AIDAEXAMPLE:bob''))) =
     [json_dumps scenario_blocks]"
    by (simp add: posted_send_slack scenario_slack_blocks)
  ultimately show ?thesis
    using flag formatting_is_reproducible [of env_up "closure_detail ''CloseAccount'' ''AIDAEXAMPLE:bob''" env_down
      "closure_event ''CloseAccount'' ''AIDAEXAMPLE:bob''"]
    by simp
qed

text \<open>
  C10. \<open>send_sns_notification\<close> returns normally on every argument. When the
  arguments of \<open>publish\<close> cannot be built, the only effect is the logged exception:
  nothing is published. With the chat flag off an event that reached the dispatch
  therefore ends the invocation normally.
\<close>

theorem send_sns_notification_total:
  "outcome (send_sns_notification cfg d) = Inr () \<and>
   (sns_arguments d = Inl err \<longrightarrow>
      send_sns_notification cfg d = ([LogException ''Failed to send SNS notification: '' err], Inr ())) \<and>
   (py_getitem event ''detail'' = Inr d \<and> py_getitem d ''eventName'' = Inr n \<and>
    n \<in> set [PStr ''CloseAccount'', PStr ''RemoveAccountFromOrganization''] \<and>
    received_text d = Inr line \<and> \<not> SLACK_NOTIFICATION cfg \<longrightarrow>
      outcome (lambda_handler cfg event) = Inr ())"
  by (simp add: send_sns_outcome send_sns_format_error lambda_handler_closure)

theorem send_sns_notification_total_witness:
  "sns_arguments (closure_detail ''CloseAccount'' ''root'') = Inl IndexError \<and>
   send_sns_notification env_quiet (closure_detail ''CloseAccount'' ''root'') =
     ([LogException ''Failed to send SNS notification: '' IndexError], Inr ()) \<and>
   outcome (send_sns_notification env_quiet PNone) = Inr () \<and>
   outcome (lambda_handler env_quiet (closure_event ''CloseAccount'' ''root'')) = Inr ()"
proof -
  have args: "sns_arguments (closure_detail ''CloseAccount'' ''root'') = Inl IndexError"
    by code_simp
  have pre: "py_getitem (closure_event ''CloseAccount'' ''root'') ''detail'' = Inr (closure_detail ''CloseAccount'' ''root'')
     \<and> py_getitem (closure_detail ''CloseAccount'' ''root'') ''eventName'' = Inr (PStr ''CloseAccount'')
     \<and> PStr ''CloseAccount'' \<in> set [PStr ''CloseAccount'', PStr ''RemoveAccountFromOrganization'']
     \<and> received_text (closure_detail ''CloseAccount'' ''root'') =
         Inr ''Received CloudWatch event of CloseAccount API for Account ID 123456789012''
     \<and> \<not> SLACK_NOTIFICATION env_quiet"
    by (simp add: closure_event_def closure_detail_def received_text_def env_quiet_def env_up_def)
  show ?thesis
    using args pre
      send_sns_notification_total [of env_quiet "closure_detail ''CloseAccount'' ''root''" IndexError
        "closure_event ''CloseAccount'' ''root''" "PStr ''CloseAccount''"
        "''Received CloudWatch event of CloseAccount API for Account ID 123456789012''"]
      send_sns_notification_total [of env_quiet PNone]
    by simp
qed

end
